theory Spec2Isabelle
  imports Main "HOL-Library.Sublist" "HOL-Library.Char_ord" "HOL-Library.List_Lexorder"
begin

section \<open>Strings as the program uses them\<close>

text \<open>
  JavaScript strings are modelled as \<open>string\<close>. The helpers below are the string methods
  that \<open>mod.js\<close> calls, written out for the non-negative literal indices it passes.
\<close>

definition slice :: "string \<Rightarrow> nat \<Rightarrow> nat \<Rightarrow> string" where
  \<comment> \<open>\<open>s.slice(a, b)\<close> with \<open>0 \<le> a\<close>, \<open>0 \<le> b\<close>\<close>
  "slice s a b = take (b - a) (drop a s)"

definition slice_from :: "string \<Rightarrow> nat \<Rightarrow> string" where
  \<comment> \<open>\<open>s.slice(a)\<close> with \<open>0 \<le> a\<close>\<close>
  "slice_from s a = drop a s"

fun startsWith :: "string \<Rightarrow> string \<Rightarrow> bool" where
  "startsWith s [] = True"
| "startsWith [] (p # ps) = False"
| "startsWith (c # cs) (p # ps) = (c = p \<and> startsWith cs ps)"

definition endsWith :: "string \<Rightarrow> string \<Rightarrow> bool" where
  "endsWith s suf = (length suf \<le> length s \<and> drop (length s - length suf) s = suf)"

fun split :: "char \<Rightarrow> string \<Rightarrow> string list" where
  \<comment> \<open>\<open>s.split(c)\<close> for a one-character separator; the result is never empty\<close>
  "split c [] = [[]]"
| "split c (x # xs) =
     (if x = c then [] # split c xs
      else (case split c xs of [] \<Rightarrow> [[x]] | w # ws \<Rightarrow> (x # w) # ws))"

fun join :: "string \<Rightarrow> string list \<Rightarrow> string" where
  "join sep [] = []"
| "join sep [x] = x"
| "join sep (x # y # ys) = x @ sep @ join sep (y # ys)"

definition is_digit :: "char \<Rightarrow> bool" where
  \<comment> \<open>the character class \<open>[0-9]\<close>\<close>
  "is_digit c = (c \<in> set ''0123456789'')"

definition digit_val :: "char \<Rightarrow> int" where
  "digit_val c = int (of_char c) - 48"

definition Number :: "string \<Rightarrow> int option" where
  \<comment> \<open>\<open>Number(s)\<close> on the strings that reach it in \<open>httpd\<close>: a non-empty run of decimal
      digits is read in base ten. \<open>None\<close> marks every other string, whose conversion
      (signs, blanks, exponents, \<open>NaN\<close>) is not modelled.\<close>
  "Number s =
     (if s \<noteq> [] \<and> list_all is_digit s
      then Some (foldl (\<lambda>n c. 10 * n + digit_val c) 0 s) else None)"

section \<open>Options and port resolution\<close>

text \<open>
  The \<open>opts\<close> argument of \<open>httpd\<close>. A key that is absent from the object is \<open>None\<close>;
  a key that is present carries its value. \<open>port\<close> is a number, \<open>cors\<close> and \<open>ls\<close> are
  booleans, \<open>headers\<close> is an array of strings.
\<close>

record Opts =
  port :: "int option"
  cors :: "bool option"
  ls :: "bool option"
  headers :: "string list option"

definition truthy :: "bool option \<Rightarrow> bool" where
  \<comment> \<open>the truth value of \<open>opts.k\<close> in a condition: an absent key reads \<open>undefined\<close>\<close>
  "truthy v = (case v of None \<Rightarrow> False | Some b \<Rightarrow> b)"

definition match_port_flag :: "string \<Rightarrow> string option" where
  \<comment> \<open>\<open>e.match(/^-p([0-9]{3,5})$/)?.pop()\<close>: the captured digits, or \<open>None\<close> for
      \<open>undefined\<close> when the argument does not match\<close>
  "match_port_flag e =
     (case e of
        a # b # ds \<Rightarrow>
          (if a = CHR ''-'' \<and> b = CHR ''p'' \<and> 3 \<le> length ds \<and> length ds \<le> 5
              \<and> list_all is_digit ds
           then Some ds else None)
      | _ \<Rightarrow> None)"

definition port_flag_found :: "string \<Rightarrow> bool" where
  \<comment> \<open>the callback of \<open>Deno.args.find\<close>: is the popped capture a non-empty string?\<close>
  "port_flag_found e = (case match_port_flag e of None \<Rightarrow> False | Some ds \<Rightarrow> ds \<noteq> [])"

definition resolve_port :: "Opts \<Rightarrow> string list \<Rightarrow> int option" where
  \<comment> \<open>\<open>Number(opts.port ?? (Deno.args.find(...) || '-p5000').slice(2))\<close>\<close>
  "resolve_port opts args =
     (case port opts of
        Some p \<Rightarrow> Some p
      | None \<Rightarrow>
          Number (slice_from
            (case find port_flag_found args of
               None \<Rightarrow> ''-p5000''
             | Some e \<Rightarrow> (if e \<noteq> [] then e else ''-p5000'')) 2))"

section \<open>The platform's \<open>Headers\<close> object\<close>

text \<open>
  \<open>Headers\<close> belongs to the runtime, not to \<open>mod.js\<close>. It is modelled as the header list of
  the Fetch standard, in insertion order, with what the program can observe of it: names
  compare without regard to ASCII case and read back in lower case, values are stripped
  of leading and trailing HTTP whitespace, and a name that is not a token or a value with
  a NUL, CR or LF makes the call throw a \<open>TypeError\<close>. Iterating an object, as a copy
  and a response do to fill their own, yields the names sorted, each once, with the values
  of one name combined.
\<close>

datatype exn = TypeError | Thrown string

type_synonym Headers = "(string \<times> string) list"

definition lower_char :: "char \<Rightarrow> char" where
  "lower_char c =
     (if c \<in> set ''ABCDEFGHIJKLMNOPQRSTUVWXYZ'' then char_of (of_char c + (32::nat)) else c)"

definition byteLowerCase :: "string \<Rightarrow> string" where
  "byteLowerCase s = map lower_char s"

definition is_token_char :: "char \<Rightarrow> bool" where
  "is_token_char c =
     (c \<in> set ''abcdefghijklmnopqrstuvwxyzABCDEFGHIJKLMNOPQRSTUVWXYZ0123456789''
      \<or> c \<in> set ''!#$%&*+-.^_`|~'' \<or> c = CHR 0x27)"

definition valid_name :: "string \<Rightarrow> bool" where
  "valid_name n = (n \<noteq> [] \<and> list_all is_token_char n)"

definition http_whitespace :: "char \<Rightarrow> bool" where
  "http_whitespace c = (c = CHR 0x09 \<or> c = CHR 0x0A \<or> c = CHR 0x0D \<or> c = CHR 0x20)"

definition normalize_value :: "string \<Rightarrow> string" where
  "normalize_value v = rev (dropWhile http_whitespace (rev (dropWhile http_whitespace v)))"

definition valid_value :: "string \<Rightarrow> bool" where
  "valid_value v = list_all (\<lambda>c. c \<noteq> CHR 0x00 \<and> c \<noteq> CHR 0x0A \<and> c \<noteq> CHR 0x0D) v"

definition same_name :: "string \<Rightarrow> string \<times> string \<Rightarrow> bool" where
  "same_name n e = (byteLowerCase (fst e) = byteLowerCase n)"

definition Headers_has :: "Headers \<Rightarrow> string \<Rightarrow> bool" where
  "Headers_has h n = list_ex (same_name n) h"

definition Headers_get :: "Headers \<Rightarrow> string \<Rightarrow> string option" where
  \<comment> \<open>\<open>h.get(n)\<close>: the values stored under the name, joined by comma and space\<close>
  "Headers_get h n =
     (case map snd (filter (same_name n) h) of
        [] \<Rightarrow> None
      | v # vs \<Rightarrow> Some (join '', '' (v # vs)))"

definition Headers_append :: "Headers \<Rightarrow> string \<Rightarrow> string \<Rightarrow> exn + Headers" where
  "Headers_append h n v =
     (let w = normalize_value v
      in if valid_name n \<and> valid_value w then Inr (h @ [(byteLowerCase n, w)])
         else Inl TypeError)"

fun set_first :: "string \<Rightarrow> string \<Rightarrow> Headers \<Rightarrow> Headers" where
  \<comment> \<open>give the first header of that name the value and remove the others\<close>
  "set_first n w [] = []"
| "set_first n w (e # h) =
     (if same_name n e then (fst e, w) # filter (\<lambda>x. \<not> same_name n x) h
      else e # set_first n w h)"

definition Headers_set :: "Headers \<Rightarrow> string \<Rightarrow> string \<Rightarrow> exn + Headers" where
  "Headers_set h n v =
     (let w = normalize_value v
      in if valid_name n \<and> valid_value w
         then Inr (if Headers_has h n then set_first n w h else h @ [(byteLowerCase n, w)])
         else Inl TypeError)"

definition header_values :: "Headers \<Rightarrow> string \<Rightarrow> string list" where
  \<comment> \<open>the values stored under a name, in insertion order\<close>
  "header_values h n = map snd (filter (same_name n) h)"

definition sorted_names :: "Headers \<Rightarrow> string list" where
  \<comment> \<open>the names in lower case, each once, in ascending byte order\<close>
  "sorted_names h = sort (remdups (map (\<lambda>e. byteLowerCase (fst e)) h))"

definition sort_and_combine :: "Headers \<Rightarrow> Headers" where
  \<comment> \<open>what iterating a \<open>Headers\<close> object yields: one pair per name with the values joined
      by comma and space, except \<open>set-cookie\<close>, whose values stay apart\<close>
  "sort_and_combine h =
     concat (map (\<lambda>n. if n = ''set-cookie'' then map (\<lambda>v. (n, v)) (header_values h n)
                       else [(n, join '', '' (header_values h n))])
               (sorted_names h))"

definition Headers_copy :: "Headers \<Rightarrow> Headers" where
  \<comment> \<open>\<open>new Headers(h)\<close>: a new object filled from the iteration of \<open>h\<close>, each pair
      appended in turn. The names and values come out of a \<open>Headers\<close> object, so they pass
      the check of \<open>append\<close> again; its stripping of the value is written out.\<close>
  "Headers_copy h = map (\<lambda>e. (fst e, normalize_value (snd e))) (sort_and_combine h)"

section \<open>Requests, responses and the collaborators\<close>

record URL =
  pathname :: string
  search :: string
  hash :: string
  username :: string
  password :: string

text \<open>
  A request as the callback reads it: \<open>req.method\<close> and the components of
  \<open>new URL(req.url)\<close>. The listener only delivers absolute, valid URLs, so the
  constructor does not throw.
\<close>

record Request =
  "method" :: string
  url :: URL

record Response =
  status :: nat
  resp_headers :: Headers
  body :: string

definition new_Response :: "string \<Rightarrow> nat \<Rightarrow> Headers \<Rightarrow> Response" where
  \<comment> \<open>\<open>new Response(body, {status, headers})\<close> with a string body: the response gets its
      own header object, filled from the given one as a copy is, and a content type is
      supplied only when that carries none\<close>
  "new_Response b st h =
     (let h' = Headers_copy h
      in \<lparr>status = st,
          resp_headers =
            (if Headers_has h' ''content-type'' then h'
             else h' @ [(''content-type'', ''text/plain;charset=UTF-8'')]),
          body = b\<rparr>)"

record ServeOpts =
  enableCors :: bool
  showDirListing :: bool
  serve_headers :: "string list"

text \<open>
  What the runtime and the static-file primitive decide for one request: whether
  \<open>Deno.chdir(docroot)\<close> succeeds, whether \<open>Deno.statSync\<close> finds the path (it throws
  otherwise), what \<open>serveDir\<close> resolves to (\<open>Inl\<close>: it rejects) together with the lines it
  prints on \<open>console.debug\<close> on its own account (its request log, which \<open>mod.js\<close> does not
  switch off: it passes no \<open>quiet\<close>), and the reading of the clock as
  \<open>new Date().toISOString()\<close>.
\<close>

record Platform =
  chdir_ok :: bool
  statSync :: "string \<Rightarrow> bool"
  serveDir :: "Request \<Rightarrow> ServeOpts \<Rightarrow> (exn + Response) \<times> string list"
  toISOString :: string

text \<open>
  The two diagnostic streams: \<open>console.debug\<close> receives the access log lines,
  \<open>console.warn\<close> receives the failure caught from the handler.
\<close>

record Console =
  debug :: "string list"
  warn :: "exn list"

text \<open>
  A value as the dispatcher tells values apart: \<open>undefined\<close>, another falsy value, a
  \<open>Response\<close>, or another truthy value that is not a promise; and a promise, given with
  how it settles (\<open>Inl\<close>: it rejects). The handler receives the request and the header
  copy, and completes by returning or throwing, leaving the header copy as it mutated it.
\<close>

datatype plain = Undefined | Falsy | Resp Response | Truthy

datatype hval = Plain plain | Promise "exn + plain"

datatype completion = Returns hval | Throws exn

type_synonym Handler = "Request \<Rightarrow> Headers \<Rightarrow> completion \<times> Headers"

fun is_truthy :: "hval \<Rightarrow> bool" where
  "is_truthy (Plain Undefined) = False"
| "is_truthy (Plain Falsy) = False"
| "is_truthy (Plain (Resp r)) = True"
| "is_truthy (Plain Truthy) = True"
| "is_truthy (Promise s) = True"

fun settle :: "hval \<Rightarrow> exn + plain" where
  \<comment> \<open>what the promise of an \<open>async\<close> function settles to after \<open>return v\<close>\<close>
  "settle (Plain v) = Inr v"
| "settle (Promise s) = s"

section \<open>The error page and the access log\<close>

definition error_page_lines :: "string list" where
  \<comment> \<open>the lines of the template literal of \<open>error\<close> before the message\<close>
  \<open>error_page_lines =
    ['''',
     ''<center>'',
     ''<br><br><br>'',
     '''',
     ''<svg version="1.0" xmlns="http://www.w3.org/2000/svg"'',
     '' width="300.000000pt" height="269.000000pt" viewBox="0 0 300.000000 269.000000"'',
     '' preserveAspectRatio="xMidYMid meet">'',
     ''<g transform="translate(0.000000,269.000000) scale(0.100000,-0.100000)"'',
     ''fill="#000000" stroke="none">'',
     ''<path d="M1180 2603 c-14 -2 -72 -15 -130 -30 -354 -87 -574 -198 -760 -383'',
     ''-185 -185 -239 -313 -240 -575 0 -118 12 -189 61 -365 46 -163 108 -299 199'',
     ''-437 33 -51 60 -101 60 -112 0 -15 6 -21 23 -21 28 0 47 -17 47 -42 0 -10 6'',
     ''-18 12 -18 7 0 67 -55 133 -122 146 -150 194 -179 368 -229 73 -20 195 -60'',
     ''272 -87 207 -75 353 -102 543 -102 115 0 160 4 182 15 15 8 30 18 32 23 1 5'',
     ''44 30 93 56 86 46 180 108 187 124 2 4 48 40 103 79 127 91 234 196 323 315'',
     ''160 213 242 471 242 756 0 119 -3 147 -25 217 -44 138 -113 234 -274 379 -105'',
     ''96 -299 246 -317 246 -3 0 -38 19 -77 42 -88 52 -197 101 -297 133 -41 13'',
     ''-122 40 -178 60 -163 57 -320 85 -467 83 -49 0 -101 -3 -115 -5z m332 -118 c3'',
     ''-14 6 -123 7 -242 0 -120 4 -264 7 -320 4 -66 3 -103 -3 -103 -16 0 -22 91'',
     ''-30 403 -4 197 -3 287 4 287 6 0 13 -11 15 -25z m-433 -199 c1 -71 -1 -127 -4'',
     ''-125 -2 3 -7 72 -9 155 -3 88 -2 139 3 124 5 -14 9 -83 10 -154z m79 33 l-3'',
     ''-124 -5 132 c-3 73 -1 129 3 124 4 -4 6 -64 5 -132z m-371 59 c1 -20 29 -317'',
     ''52 -545 3 -40 4 -73 1 -73 -13 0 -62 372 -74 560 -2 25 -7 53 -11 63 -5 13 -2'',
     ''17 11 17 13 0 20 -8 21 -22z m450 -225 c-2 -38 -3 -7 -3 67 0 74 1 105 3 68 2'',
     ''-38 2 -98 0 -135z m-603 5 c3 -48 13 -140 21 -205 8 -65 15 -134 14 -153 -1'',
     ''-72 -17 13 -44 235 -14 121 -28 234 -31 252 -3 20 0 33 8 35 15 5 22 -32 32'',
     ''-164z m1228 -523 c3 -110 1 -187 -3 -171 -4 15 -10 207 -13 425 -4 318 -3 352'',
     ''4 171 4 -124 10 -315 12 -425z m-1321 479 c20 -159 38 -316 44 -389 4 -36 2'',
     ''-44 -4 -30 -6 11 -24 124 -41 250 -17 127 -35 247 -40 267 -4 20 -5 40 -2 43'',
     ''18 17 28 -16 43 -141z m1718 -146 c1 -144 0 -260 -2 -258 -14 15 -16 520 -2'',
     ''520 1 0 3 -118 4 -262z m-1809 106 c16 -104 37 -264 59 -472 10 -88 -5 -88'',
     ''-19 0 -6 40 -20 127 -30 193 -11 66 -27 169 -36 230 -8 60 -20 116 -26 123 -8'',
     ''9 -6 18 7 32 10 11 20 19 22 17 2 -2 12 -58 23 -123z m1912 54 c-10 -22 -11'',
     ''-21 -11 12 -1 26 2 31 11 22 8 -8 8 -17 0 -34z m-2018 -35 c8 -27 86 -578 86'',
     ''-611 0 -15 4 -32 9 -38 6 -5 5 -18 -3 -32 -10 -19 -14 -4 -29 115 -10 76 -24'',
     ''176 -32 223 -8 47 -21 137 -31 200 -9 63 -20 122 -25 131 -8 16 -3 29 12 29 4'',
     ''0 10 -8 13 -17z m-65 -108 l0 -30 -14 34 c-8 18 -12 38 -9 43 10 16 24 -13 23'',
     ''-47z m2075 -97 c-3 -46 -7 -272 -8 -503 -4 -474 -7 -541 -16 -405 -7 94 6 865'',
     ''16 948 9 71 14 47 8 -40z m-2061 12 c4 -30 3 -38 -3 -25 -8 19 -14 83 -6 74 2'',
     ''-2 6 -24 9 -49z m2151 -412 c-7 -517 -20 -764 -23 -443 -1 105 -2 228 -2 275'',
     ''1 105 24 620 28 620 1 0 0 -204 -3 -452z m201 122 c-11 -356 -25 -705 -31'',
     ''-738 -3 -20 -10 -32 -17 -29 -13 4 -12 142 3 502 5 116 10 266 11 335 1 69 4'',
     ''140 7 159 l5 33 14 -33 c12 -27 13 -72 8 -229z m-2477 132 c10 -66 28 -190 72'',
     ''-512 5 -36 9 -74 9 -85 -2 -27 -17 43 -29 130 -5 39 -12 80 -15 92 -3 13 -14'',
     ''87 -25 166 -10 79 -24 164 -29 188 -12 52 -14 116 -3 105 4 -4 13 -42 20 -84z'',
     ''m70 -2 l0 -35 -8 30 c-4 17 -8 44 -8 60 0 29 0 29 8 5 4 -14 8 -41 8 -60z'',
     ''m1289 23 c-4 -17 -4 -17 -12 0 -4 9 -4 25 0 35 8 16 8 16 12 0 3 -10 3 -26 0'',
     ''-35z m-194 -22 c13 -5 27 -19 30 -31 5 -19 11 -22 44 -18 46 6 144 -34 185'',
     ''-76 80 -81 180 -242 222 -356 36 -96 44 -141 56 -295 6 -77 18 -205 26 -285 8'',
     ''-80 17 -169 20 -199 3 -29 0 -82 -7 -116 -11 -56 -10 -66 5 -89 13 -20 14 -27'',
     ''4 -30 -70 -20 -106 -28 -183 -42 -49 -8 -97 -22 -106 -30 -18 -16 -75 -9 -216'',
     ''27 -107 26 -156 47 -150 62 2 7 10 61 18 120 11 89 11 110 0 116 -10 6 -14 46'',
     ''-15 152 -1 79 -8 193 -15 253 -15 124 -12 129 58 142 20 4 43 10 52 15 25 13'',
     ''29 46 9 64 -18 16 -24 15 -99 -14 -44 -17 -89 -31 -99 -31 -11 0 -36 -7 -56'',
     ''-15 -85 -36 -375 -26 -471 15 -67 29 -139 105 -153 162 -7 26 -12 58 -12 71 0'',
     ''53 98 203 163 249 l29 21 -7 -22 c-14 -45 18 -81 55 -61 19 10 31 52 21 69 -4'',
     ''5 -18 14 -31 19 -23 9 -19 13 59 51 47 22 97 41 111 41 15 0 40 7 56 15 73 36'',
     ''341 67 397 46z m1519 -299 c0 -96 -25 -282 -48 -361 -10 -32 -11 -1 -3 84 4'',
     ''50 8 140 8 200 1 61 4 148 8 195 l7 85 14 -45 c8 -27 14 -90 14 -158z m-600'',
     ''21 c-4 -272 -8 -294 -10 -55 -1 122 1 222 6 222 4 0 6 -75 4 -167z m-2118 32'',
     ''c3 -36 2 -52 -3 -40 -12 29 -23 134 -12 115 5 -8 11 -42 15 -75z m1953 -357'',
     ''c-1 -40 -3 -10 -3 67 0 77 1 110 3 73 2 -37 2 -100 0 -140z m91 -273 c0 -62'',
     ''-3 -99 -7 -85 -4 14 -7 106 -8 205 0 154 1 166 7 85 4 -52 8 -144 8 -205z'',
     ''m-1708 239 c0 -14 5 -34 11 -45 9 -17 48 -318 49 -373 0 -15 -3 -16 -14 -6'',
     ''-23 18 -36 102 -62 389 -5 54 -4 72 5 67 6 -4 11 -18 11 -32z m1617 -216 c-2'',
     ''-35 -3 -9 -3 57 0 66 1 94 3 63 2 -32 2 -86 0 -120z m-1498 30 c14 -112 31'',
     ''-297 30 -328 -1 -57 -17 17 -23 115 -4 55 -11 125 -16 155 -5 30 -11 84 -14'',
     ''120 -8 93 10 43 23 -62z m89 -25 c7 -54 14 -143 17 -198 4 -88 3 -93 -5 -40'',
     ''-16 101 -37 335 -30 335 4 0 12 -44 18 -97z m92 76 c0 -6 4 -52 10 -102 5 -51'',
     ''14 -155 20 -232 6 -77 13 -161 15 -187 3 -27 1 -48 -5 -48 -9 0 -14 33 -25'',
     ''145 -26 297 -36 393 -40 413 -4 15 -1 22 10 22 8 0 15 -5 15 -11z m259 -51 c6'',
     ''-29 15 -132 21 -228 11 -185 16 -245 26 -322 4 -33 2 -48 -5 -48 -7 0 -13 6'',
     ''-15 13 -12 43 -27 178 -36 324 -6 92 -14 198 -19 236 -4 37 -5 69 -3 72 13 13'',
     ''21 1 31 -47z m1308 -211 c-2 -23 -3 -1 -3 48 0 50 1 68 3 42 2 -26 2 -67 0'',
     ''-90z m97 29 c-3 -44 -7 -82 -9 -85 -3 -2 -5 40 -5 95 0 66 3 94 10 84 5 -8 7'',
     ''-51 4 -94z m-263 -162 c-9 -38 -9 -38 -10 -7 -1 33 10 74 16 57 2 -6 -1 -28'',
     ''-6 -50z m122 -144 c13 -1 -22 -30 -35 -30 -4 0 -8 9 -8 21 0 15 4 19 16 15 9'',
     ''-3 21 -6 27 -6z"/>'',
     ''<path d="M912 1538 c-33 -33 4 -87 49 -73 26 9 44 52 28 71 -14 17 -61 18 -77'',
     ''2z"/>'',
     ''</g>'',
     ''</svg>'',
     '''',
     ''<br><br><br>'']\<close>

definition error :: "string \<Rightarrow> string" where
  \<comment> \<open>the template literal: every line above ends in a newline, then the message, then
      the closing lines\<close>
  "error msg =
     concat (map (\<lambda>l. l @ [CHR 0x0A]) error_page_lines) @ msg
       @ [CHR 0x0A] @ ''</center>'' @ [CHR 0x0A]"

fun decimal :: "nat \<Rightarrow> string" where
  \<comment> \<open>a non-negative integer as the template literal prints it\<close>
  "decimal n =
     (if n < 10 then [''0123456789'' ! n]
      else decimal (n div 10) @ [''0123456789'' ! (n mod 10)])"

definition log_line :: "string \<Rightarrow> Request \<Rightarrow> nat \<Rightarrow> string" where
  "log_line d req st =
     (let dateFmt = ''['' @ slice d 0 10 @ '' '' @ slice d 11 19 @ '']''
      in dateFmt @ '' ['' @ method req @ ''] '' @ pathname (url req) @ '' '' @ decimal st)"

definition log :: "Platform \<Rightarrow> Request \<Rightarrow> nat option \<Rightarrow> Console \<Rightarrow> Console" where
  \<comment> \<open>\<open>log(req, status = 200)\<close>: the second argument may be left out\<close>
  "log P req status_arg con =
     (let st = (case status_arg of None \<Rightarrow> 200 | Some s \<Rightarrow> s);
          d = toISOString P;
          s = log_line d req st
      in con\<lparr>debug := debug con @ [s]\<rparr>)"

section \<open>Startup: the default header template\<close>

fun append_headers :: "Headers \<Rightarrow> string list \<Rightarrow> exn + Headers" where
  \<comment> \<open>the loop over \<open>opts.headers ?? []\<close>\<close>
  "append_headers h [] = Inr h"
| "append_headers h (header # rest) =
     (let headerSplit = split CHR '':'' header;
          name = (case headerSplit of [] \<Rightarrow> ''undefined'' | n # vs \<Rightarrow> n);
          val = join '':'' (drop 1 headerSplit)
      in case Headers_append h name val of
           Inl e \<Rightarrow> Inl e
         | Inr h' \<Rightarrow> append_headers h' rest)"

definition headers_defaults :: "Opts \<Rightarrow> exn + Headers" where
  "headers_defaults opts =
     (case Headers_append [] ''content-type'' ''text/html'' of
        Inl e \<Rightarrow> Inl e
      | Inr h0 \<Rightarrow>
          (case append_headers h0 (case headers opts of None \<Rightarrow> [] | Some hs \<Rightarrow> hs) of
             Inl e \<Rightarrow> Inl e
           | Inr h1 \<Rightarrow>
               (if truthy (cors opts)
                then (case Headers_append h1 ''access-control-allow-origin'' ''*'' of
                        Inl e \<Rightarrow> Inl e
                      | Inr h2 \<Rightarrow>
                          Headers_append h2 ''access-control-allow-headers''
                            ''Origin, X-Requested-With, Content-Type, Accept, Range'')
                else Inr h1)))"

section \<open>The request callback\<close>

definition static_candidate :: "Opts \<Rightarrow> URL \<Rightarrow> string" where
  \<comment> \<open>\<open>url.pathname.slice(1) || (opts.ls ? '.' : 'index.html')\<close>\<close>
  "static_candidate opts u =
     (let p = slice_from (pathname u) 1
      in if p \<noteq> [] then p else if truthy (ls opts) then ''.'' else ''index.html'')"

definition safe_htm :: "Request \<Rightarrow> bool" where
  "safe_htm req =
     (method req = ''GET'' \<and>
      search (url req) = [] \<and> hash (url req) = [] \<and>
      username (url req) = [] \<and> password (url req) = [] \<and>
      (endsWith (pathname (url req)) ''.html'' \<or> endsWith (pathname (url req)) ''.htm''))"

definition serve_opts :: "Opts \<Rightarrow> Request \<Rightarrow> ServeOpts" where
  "serve_opts opts req =
     \<lparr>enableCors = (case cors opts of Some b \<Rightarrow> b | None \<Rightarrow> True),
      showDirListing = (case ls opts of Some b \<Rightarrow> b | None \<Rightarrow> True),
      serve_headers =
        filter (\<lambda>e. \<not> safe_htm req \<or> \<not> startsWith e ''content-security-policy'')
          (case headers opts of None \<Rightarrow> [] | Some hs \<Rightarrow> hs)\<rparr>"

definition try_static :: "Opts \<Rightarrow> Platform \<Rightarrow> Request \<Rightarrow> Response option \<times> string list" where
  \<comment> \<open>the \<open>try\<close> block, with the lines \<open>serveDir\<close> printed; \<open>None\<close>: one of its calls
      threw, control goes to \<open>catch\<close>\<close>
  "try_static opts P req =
     (if \<not> chdir_ok P then (None, [])
      else if \<not> statSync P (static_candidate opts (url req)) then (None, [])
      else (case serveDir P req (serve_opts opts req) of
              (Inl e, out) \<Rightarrow> (None, out)
            | (Inr res, out) \<Rightarrow> (Some res, out)))"

definition error_response ::
  "string \<Rightarrow> nat \<Rightarrow> Headers \<Rightarrow> Console \<Rightarrow> (exn + plain) \<times> Console" where
  \<comment> \<open>\<open>headers.set('content-type', 'text/html')\<close> and
      \<open>return new Response(error(msg), {status, headers})\<close>\<close>
  "error_response msg st h con =
     (case Headers_set h ''content-type'' ''text/html'' of
        Inl e \<Rightarrow> (Inl e, con)
      | Inr h' \<Rightarrow> (Inr (Resp (new_Response (error msg) st h')), con))"

definition dynamic ::
  "Handler option \<Rightarrow> Headers \<Rightarrow> Platform \<Rightarrow> Request \<Rightarrow> Console \<Rightarrow> (exn + plain) \<times> Console"
  where
  \<comment> \<open>the \<open>catch\<close> block\<close>
  "dynamic handler hdefaults P req con =
     (let hs = Headers_copy hdefaults;
          (res, hs') = (case handler of
                          Some f \<Rightarrow> f req hs
                        | None \<Rightarrow> (Returns (Plain Undefined), hs))
      in case res of
           Throws err \<Rightarrow>
             error_response ''Internal Server Error'' 500 hs'
               (log P req (Some 500) (con\<lparr>warn := warn con @ [err]\<rparr>))
         | Returns v \<Rightarrow>
             (if is_truthy v then (settle v, log P req None con)
              else error_response ''Not Found'' 404 hs' (log P req (Some 404) con)))"

definition serve ::
  "Handler option \<Rightarrow> Opts \<Rightarrow> Headers \<Rightarrow> Platform \<Rightarrow> Request \<Rightarrow> Console
     \<Rightarrow> (exn + plain) \<times> Console" where
  \<comment> \<open>the \<open>async (req) => ...\<close> given to \<open>Deno.serve\<close>: what its promise settles to
      (\<open>Inl\<close>: it rejects) and the console afterwards\<close>
  "serve handler opts hdefaults P req con =
     (case try_static opts P req of
        (Some res, out) \<Rightarrow> (Inr (Resp res), con\<lparr>debug := debug con @ out\<rparr>)
      | (None, out) \<Rightarrow> dynamic handler hdefaults P req (con\<lparr>debug := debug con @ out\<rparr>))"

record Server =
  listen_port :: "int option"
  callback :: "Platform \<Rightarrow> Request \<Rightarrow> Console \<Rightarrow> (exn + plain) \<times> Console"

definition httpd :: "Handler option \<Rightarrow> Opts \<Rightarrow> string list \<Rightarrow> exn + Server" where
  \<comment> \<open>\<open>httpd(handler, opts)\<close> with the command line \<open>Deno.args\<close>: what is handed to
      \<open>Deno.serve\<close>, the port and the callback closed over the header template; a header
      string that \<open>Headers.append\<close> refuses makes \<open>httpd\<close> throw\<close>
  "httpd handler opts args =
     (case headers_defaults opts of
        Inl e \<Rightarrow> Inl e
      | Inr h \<Rightarrow>
          Inr \<lparr>listen_port = resolve_port opts args, callback = serve handler opts h\<rparr>)"

definition no_opts :: Opts where
  \<comment> \<open>the default \<open>opts = {}\<close>\<close>
  "no_opts = \<lparr>port = None, cors = None, ls = None, headers = None\<rparr>"

section \<open>The specification's vocabulary\<close>

definition port_flag_pattern :: "string \<Rightarrow> bool" where
  \<comment> \<open>the flag as the specification words it: dash, lowercase p, then 3 to 5 digits\<close>
  "port_flag_pattern e =
     (take 2 e = ''-p'' \<and> 3 \<le> length (drop 2 e) \<and> length (drop 2 e) \<le> 5
      \<and> (\<forall>c \<in> set (drop 2 e). is_digit c))"

fun dec_value :: "string \<Rightarrow> int" where
  \<comment> \<open>the number that a run of decimal digits denotes, by place value\<close>
  "dec_value [] = 0"
| "dec_value (c # cs) = digit_val c * 10 ^ length cs + dec_value cs"



definition configured_headers :: "Opts \<Rightarrow> string list" where
  \<comment> \<open>the configured header strings, \<open>opts.headers ?? []\<close>\<close>
  "configured_headers opts = (case headers opts of None \<Rightarrow> [] | Some hs \<Rightarrow> hs)"

subsection \<open>Concrete requests, options, collaborators and handlers\<close>

text \<open>
  Inputs at which the theorems below are instantiated: requests for the root, for an HTML
  page with and without a query, and for a path with no file; a disk where every path
  exists and whose primitive prints its request line, and one where no path exists; and
  handlers that return a redirect, return nothing after changing the headers, return a
  string, throw, and return a promise.
\<close>

definition plain_url :: "string \<Rightarrow> URL" where
  "plain_url p = \<lparr>pathname = p, search = [], hash = [], username = [], password = []\<rparr>"

definition root_request :: Request where
  "root_request = \<lparr>method = ''GET'', url = plain_url ''/''\<rparr>"

definition page_request :: Request where
  "page_request = \<lparr>method = ''GET'', url = plain_url ''/docs/index.html''\<rparr>"

definition query_request :: Request where
  "query_request = \<lparr>method = ''GET'', url = (plain_url ''/docs/index.html'')\<lparr>search := ''?x=1''\<rparr>\<rparr>"

definition details_request :: Request where
  "details_request = \<lparr>method = ''GET'', url = plain_url ''/details/7''\<rparr>"

definition csp_opts :: Opts where
  "csp_opts = no_opts\<lparr>headers := Some
     [''content-security-policy: default-src *'',
      ''Content-Security-Policy: default-src *'',
      ''x-frame-options: DENY'']\<rparr>"

definition blank_opts :: Opts where
  "blank_opts = no_opts\<lparr>headers := Some
     ['' content-security-policy: default-src *'',
      ''x-frame-options: DENY'']\<rparr>"

definition static_response :: Response where
  "static_response = \<lparr>status = 200, resp_headers = [], body = ''<h1>docs</h1>''\<rparr>"

definition full_disk :: Platform where
  "full_disk = \<lparr>chdir_ok = True, statSync = (\<lambda>p. True),
     serveDir = (\<lambda>req so.
       (Inr static_response, [log_line ''2024-01-02T03:04:05.678Z'' req (status static_response)])),
     toISOString = ''2024-01-02T03:04:05.678Z''\<rparr>"

definition empty_disk :: Platform where
  "empty_disk = \<lparr>chdir_ok = True, statSync = (\<lambda>p. False),
     serveDir = (\<lambda>req so. (Inl (Thrown ''not found''), [])),
     toISOString = ''2024-01-02T03:04:05.678Z''\<rparr>"

definition html_template :: Headers where
  "html_template = [(''content-type'', ''text/html'')]"

definition quiet :: Console where
  "quiet = \<lparr>debug = [], warn = []\<rparr>"

definition redirect_response :: Response where
  "redirect_response =
     \<lparr>status = 302, resp_headers = [(''location'', ''/details/8'')], body = []\<rparr>"

definition redirect_handler :: Handler where
  "redirect_handler = (\<lambda>req h. (Returns (Plain (Resp redirect_response)), h))"




definition rejecting_handler :: Handler where
  "rejecting_handler = (\<lambda>req h. (Returns (Promise (Inl (Thrown ''boom''))), h))"

definition pending_handler :: "exn + plain \<Rightarrow> Handler" where
  \<comment> \<open>an \<open>async\<close> handler: it returns a promise, which settles to \<open>s\<close> later\<close>
  "pending_handler s = (\<lambda>req h. (Returns (Promise s), h))"

section \<open>Port resolution\<close>

lemma port_flag_found_iff: "port_flag_found e = port_flag_pattern e"
proof (cases e)
  case Nil
  then show ?thesis by (simp add: port_flag_found_def match_port_flag_def port_flag_pattern_def)
next
  case (Cons a r)
  show ?thesis
  proof (cases r)
    case Nil
    with Cons show ?thesis
      by (simp add: port_flag_found_def match_port_flag_def port_flag_pattern_def)
  next
    case (Cons b ds)
    with \<open>e = a # r\<close> show ?thesis
      by (auto simp: port_flag_found_def match_port_flag_def port_flag_pattern_def list_all_iff)
  qed
qed

lemma foldl_dec: "foldl (\<lambda>n c. 10 * n + digit_val c) a ds = a * 10 ^ length ds + dec_value ds"
  by (induction ds arbitrary: a) (simp_all add: algebra_simps)

lemma Number_digits:
  "ds \<noteq> [] \<Longrightarrow> \<forall>c \<in> set ds. is_digit c \<Longrightarrow> Number ds = Some (dec_value ds)"
  by (simp add: Number_def list_all_iff foldl_dec)

lemma digit_val_range: "is_digit c \<Longrightarrow> 0 \<le> digit_val c \<and> digit_val c \<le> 9"
  by (auto simp: is_digit_def digit_val_def)

lemma dec_value_range:
  "\<forall>c \<in> set ds. is_digit c \<Longrightarrow> 0 \<le> dec_value ds \<and> dec_value ds < 10 ^ length ds"
proof (induction ds)
  case Nil
  then show ?case by simp
next
  case (Cons c cs)
  then have d: "0 \<le> digit_val c" "digit_val c \<le> 9" and
    ih: "0 \<le> dec_value cs" "dec_value cs < 10 ^ length cs"
    using digit_val_range by auto
  have "digit_val c * 10 ^ length cs \<le> 9 * 10 ^ length cs"
    using d by (simp add: mult_right_mono)
  moreover have "dec_value (c # cs) = digit_val c * 10 ^ length cs + dec_value cs" by simp
  moreover have "0 \<le> digit_val c * 10 ^ length cs" using d by simp
  moreover have "(10::int) ^ length (c # cs) = 10 * 10 ^ length cs" by simp
  ultimately show ?case using ih by linarith
qed

lemma resolve_port_flag:
  assumes "port opts = None" "find port_flag_pattern args = Some e"
  shows "resolve_port opts args = Some (dec_value (drop 2 e))"
proof -
  have pe: "port_flag_pattern e" using assms(2) by (auto simp: find_Some_iff)
  then have ne: "e \<noteq> []" "drop 2 e \<noteq> []" "\<forall>c \<in> set (drop 2 e). is_digit c"
    by (auto simp: port_flag_pattern_def)
  have f: "find port_flag_found args = Some e"
    using assms(2) port_flag_found_iff by (simp add: fun_eq_iff[symmetric] cong: find_cong)
  show ?thesis
    using assms(1) f ne by (simp add: resolve_port_def slice_from_def Number_digits)
qed


lemma resolve_port_none:
  assumes "port opts = None" "\<forall>x \<in> set args. \<not> port_flag_pattern x"
  shows "resolve_port opts args = Some 5000"
proof -
  have "find port_flag_found args = None"
    using assms(2) by (simp add: find_None_iff port_flag_found_iff)
  then show ?thesis
    using assms(1)
    by (simp add: resolve_port_def slice_from_def Number_def is_digit_def digit_val_def)
qed

lemma find_filter_same: "find P (filter P xs) = find P xs"
  by (induction xs) simp_all

lemma resolve_port_filter:
  "resolve_port opts (filter port_flag_pattern args) = resolve_port opts args"
proof -
  have "port_flag_found = port_flag_pattern" by (rule ext) (rule port_flag_found_iff)
  then have "find port_flag_found (filter port_flag_pattern args) = find port_flag_found args"
    using find_filter_same[of port_flag_pattern args] by simp
  then show ?thesis by (cases "port opts") (simp_all add: resolve_port_def)
qed

text \<open>
  Claim C8. Port resolution: an explicit \<open>port\<close> option wins; otherwise the first
  command-line argument of the form dash, lowercase p, 3 to 5 digits supplies the port, read
  in base ten; otherwise the port is 5000. Arguments that do not match are ignored (removing
  them changes nothing) and resolution never fails. With arguments \<open>-p8080\<close> and no option
  the port is 8080; with option 9999 and the same arguments it is 9999.
\<close>

theorem resolve_port_order:
  "(\<forall>p. port opts = Some p \<longrightarrow> resolve_port opts args = Some p) \<and>
   (\<forall>pre e post.
      port opts = None \<and> args = pre @ e # post \<and> (\<forall>x \<in> set pre. \<not> port_flag_pattern x)
        \<and> port_flag_pattern e \<longrightarrow>
      resolve_port opts args = Some (dec_value (drop 2 e))
        \<and> 0 \<le> dec_value (drop 2 e) \<and> dec_value (drop 2 e) < 100000) \<and>
   (port opts = None \<and> (\<forall>x \<in> set args. \<not> port_flag_pattern x) \<longrightarrow>
      resolve_port opts args = Some 5000) \<and>
   resolve_port opts (filter port_flag_pattern args) = resolve_port opts args \<and>
   (\<exists>n. resolve_port opts args = Some n) \<and>
   resolve_port no_opts [''-p8080''] = Some 8080 \<and>
   resolve_port (no_opts\<lparr>port := Some 9999\<rparr>) [''-p8080''] = Some 9999"
proof (intro conjI allI impI)
  fix p assume "port opts = Some p"
  then show "resolve_port opts args = Some p" by (simp add: resolve_port_def)
next
  fix pre e post
  assume a: "port opts = None \<and> args = pre @ e # post
    \<and> (\<forall>x \<in> set pre. \<not> port_flag_pattern x) \<and> port_flag_pattern e"
  then have "find port_flag_pattern args = Some e"
    by (auto simp: find_Some_iff nth_append intro!: exI[of _ "length pre"])
  with a show "resolve_port opts args = Some (dec_value (drop 2 e))"
    by (simp add: resolve_port_flag)
  from a have d: "\<forall>c \<in> set (drop 2 e). is_digit c" and l: "length (drop 2 e) \<le> 5"
    by (simp_all add: port_flag_pattern_def)
  from dec_value_range[OF d] show "0 \<le> dec_value (drop 2 e)" by simp
  have "(10::int) ^ length (drop 2 e) \<le> 10 ^ 5"
    using l by (intro power_increasing) simp_all
  with dec_value_range[OF d] show "dec_value (drop 2 e) < 100000" by simp
next
  assume "port opts = None \<and> (\<forall>x \<in> set args. \<not> port_flag_pattern x)"
  then show "resolve_port opts args = Some 5000" by (simp add: resolve_port_none)
next
  show "resolve_port opts (filter port_flag_pattern args) = resolve_port opts args"
    by (rule resolve_port_filter)
next
  show "\<exists>n. resolve_port opts args = Some n"
  proof (cases "port opts")
    case (Some p)
    then show ?thesis by (simp add: resolve_port_def)
  next
    case None
    show ?thesis
    proof (cases "find port_flag_pattern args")
      case (Some e)
      with None show ?thesis by (simp add: resolve_port_flag)
    next
      case n: None
      then have "\<forall>x \<in> set args. \<not> port_flag_pattern x" by (simp add: find_None_iff)
      with None show ?thesis by (simp add: resolve_port_none)
    qed
  qed
next
  show "resolve_port no_opts [''-p8080''] = Some 8080"
    by (simp add: resolve_port_def no_opts_def port_flag_found_def match_port_flag_def
        is_digit_def Number_def slice_from_def digit_val_def)
next
  show "resolve_port (no_opts\<lparr>port := Some 9999\<rparr>) [''-p8080''] = Some 9999"
    by (simp add: resolve_port_def no_opts_def)
qed

text \<open>The three cases of C8 at concrete options and arguments.\<close>

theorem resolve_port_order_witness:
  "resolve_port (no_opts\<lparr>port := Some 8888\<rparr>) [''-p8080''] = Some 8888 \<and>
   resolve_port no_opts [''x'', ''-p80'', ''-p0443'', ''-p8080''] = Some 443 \<and>
   resolve_port no_opts [''-p80'', ''-P8080'', ''-p123456'', ''-p80a''] = Some 5000"
proof (intro conjI)
  have "port (no_opts\<lparr>port := Some 8888\<rparr>) = Some 8888" by (simp add: no_opts_def)
  with resolve_port_order[of "no_opts\<lparr>port := Some 8888\<rparr>" "[''-p8080'']"]
  show "resolve_port (no_opts\<lparr>port := Some 8888\<rparr>) [''-p8080''] = Some 8888" by blast
next
  have h: "port no_opts = None \<and> [''x'', ''-p80'', ''-p0443'', ''-p8080''] = [''x'', ''-p80''] @ ''-p0443'' # [''-p8080'']
      \<and> (\<forall>x \<in> set [''x'', ''-p80'']. \<not> port_flag_pattern x) \<and> port_flag_pattern ''-p0443''"
    by (simp add: no_opts_def port_flag_pattern_def is_digit_def)
  have "dec_value (drop 2 ''-p0443'') = 443" by (simp add: digit_val_def)
  with h resolve_port_order[of no_opts "[''x'', ''-p80'', ''-p0443'', ''-p8080'']"]
  show "resolve_port no_opts [''x'', ''-p80'', ''-p0443'', ''-p8080''] = Some 443" by metis
next
  have h: "port no_opts = None \<and>
      (\<forall>x \<in> set [''-p80'', ''-P8080'', ''-p123456'', ''-p80a'']. \<not> port_flag_pattern x)"
    by (simp add: no_opts_def port_flag_pattern_def is_digit_def)
  with resolve_port_order[of no_opts "[''-p80'', ''-P8080'', ''-p123456'', ''-p80a'']"]
  show "resolve_port no_opts [''-p80'', ''-P8080'', ''-p123456'', ''-p80a''] = Some 5000" by blast
qed

section \<open>Header objects: setting, copying, reading\<close>

lemma content_type_valid:
  "valid_name ''content-type''" "normalize_value ''text/html'' = ''text/html''"
  "valid_value ''text/html''" "byteLowerCase ''content-type'' = ''content-type''"
  by (simp_all add: valid_name_def is_token_char_def normalize_value_def http_whitespace_def
      valid_value_def byteLowerCase_def lower_char_def)



































section \<open>The dynamic path\<close>

lemma log_eq:
  "log P req st con =
     con\<lparr>debug := debug con @ [log_line (toISOString P) req (case st of None \<Rightarrow> 200 | Some s \<Rightarrow> s)]\<rparr>"
  by (simp add: log_def)




lemma dynamic_returns_truthy:
  assumes "f req (Headers_copy hdefaults) = (Returns v, hs')" "is_truthy v"
  shows "dynamic (Some f) hdefaults P req con =
     (settle v, con\<lparr>debug := debug con @ [log_line (toISOString P) req 200]\<rparr>)"
  using assms by (simp add: dynamic_def log_eq)

lemma serve_miss:
  "try_static opts P req = (None, out) \<Longrightarrow>
     serve handler opts hdefaults P req con =
       dynamic handler hdefaults P req (con\<lparr>debug := debug con @ out\<rparr>)"
  by (simp add: serve_def)

lemma serve_hit:
  "try_static opts P req = (Some res, out) \<Longrightarrow>
     serve handler opts hdefaults P req con = (Inr (Resp res), con\<lparr>debug := debug con @ out\<rparr>)"
  by (simp add: serve_def)

lemma try_static_Some:
  "try_static opts P req = (Some res, out) \<Longrightarrow>
     serveDir P req (serve_opts opts req) = (Inr res, out)"
  by (auto simp: try_static_def split: if_splits sum.splits prod.splits)

lemma empty_disk_miss: "try_static opts empty_disk req = (None, [])"
  by (simp add: try_static_def empty_disk_def)

lemma example_log_line:
  "log_line (toISOString empty_disk) details_request 200 =
     ''[2024-01-02 03:04:05] [GET] /details/7 200''"
  "log_line (toISOString empty_disk) details_request 302 =
     ''[2024-01-02 03:04:05] [GET] /details/7 302''"
  "log_line (toISOString empty_disk) details_request 404 =
     ''[2024-01-02 03:04:05] [GET] /details/7 404''"
  "log_line (toISOString empty_disk) details_request 500 =
     ''[2024-01-02 03:04:05] [GET] /details/7 500''"
  by (simp_all add: log_line_def empty_disk_def details_request_def plain_url_def slice_def)

lemma copy_html_template: "Headers_copy html_template = html_template"
  by (simp add: Headers_copy_def sort_and_combine_def sorted_names_def header_values_def
      same_name_def byteLowerCase_def lower_char_def normalize_value_def http_whitespace_def
      html_template_def)



section \<open>The static path and the safe-HTML exemption\<close>

lemma startsWith_prefix: "startsWith s p = prefix p s"
  by (induction s p rule: startsWith.induct) auto

lemma endsWith_suffix: "endsWith s suf = suffix suf s"
proof
  assume "endsWith s suf"
  then have "s = take (length s - length suf) s @ suf"
    by (metis append_take_drop_id endsWith_def)
  then show "suffix suf s" by (metis suffixI)
next
  assume "suffix suf s"
  then obtain pre where "s = pre @ suf" by (auto simp: suffix_def)
  then show "endsWith s suf" by (simp add: endsWith_def)
qed

lemma safe_htm_iff:
  "safe_htm req =
     (method req = ''GET'' \<and> search (url req) = [] \<and> hash (url req) = [] \<and>
      username (url req) = [] \<and> password (url req) = [] \<and>
      (suffix ''.htm'' (pathname (url req)) \<or> suffix ''.html'' (pathname (url req))))"
  by (auto simp: safe_htm_def endsWith_suffix)

lemma serve_headers_eq:
  "serve_headers (serve_opts opts req) =
     (if safe_htm req
      then filter (\<lambda>e. \<not> prefix ''content-security-policy'' e) (configured_headers opts)
      else configured_headers opts)"
  by (simp add: serve_opts_def configured_headers_def startsWith_prefix)

lemma full_disk_hit:
  "try_static opts full_disk req =
     (Some static_response, [log_line ''2024-01-02T03:04:05.678Z'' req 200])"
  by (simp add: try_static_def full_disk_def static_response_def)

lemma page_log_line:
  "log_line ''2024-01-02T03:04:05.678Z'' page_request 200 =
     ''[2024-01-02 03:04:05] [GET] /docs/index.html 200''"
  by (simp add: log_line_def page_request_def plain_url_def slice_def)

lemma safe_examples: "safe_htm page_request" "\<not> safe_htm query_request"
  by (simp_all add: safe_htm_def page_request_def query_request_def plain_url_def endsWith_def)

lemma csp_configured:
  "configured_headers csp_opts =
     [''content-security-policy: default-src *'',
      ''Content-Security-Policy: default-src *'',
      ''x-frame-options: DENY'']"
  "configured_headers blank_opts =
     ['' content-security-policy: default-src *'',
      ''x-frame-options: DENY'']"
  by (simp_all add: configured_headers_def csp_opts_def blank_opts_def no_opts_def)

text \<open>
  The first configuration starts: every entry has a token before its first colon. The
  second does not: the blank before the name makes \<open>Headers.append\<close> throw, so \<open>httpd\<close>
  never serves a request with it.
\<close>

lemma csp_opts_start:
  "headers_defaults csp_opts =
     Inr [(''content-type'', ''text/html''),
          (''content-security-policy'', ''default-src *''),
          (''content-security-policy'', ''default-src *''),
          (''x-frame-options'', ''DENY'')]"
  by (simp add: headers_defaults_def csp_opts_def no_opts_def Headers_append_def truthy_def
      valid_name_def valid_value_def is_token_char_def normalize_value_def http_whitespace_def
      byteLowerCase_def lower_char_def char_of_eq_iff)

lemma blank_opts_refused: "httpd handler blank_opts args = Inl TypeError"
  by (simp add: httpd_def headers_defaults_def blank_opts_def no_opts_def Headers_append_def
      truthy_def valid_name_def valid_value_def is_token_char_def normalize_value_def
      http_whitespace_def byteLowerCase_def lower_char_def)

text \<open>
  Claim C9. When a request is served statically, the response is the one that
  \<open>serveDir\<close> gives for the options built for this request, and the header list in these
  options is the configured list without the entries that start with
  \<open>content-security-policy\<close> exactly when the method is GET, query, fragment, user name
  and password are empty and the path ends in \<open>.htm\<close> or \<open>.html\<close>; in every other case
  it is the configured list unchanged.
\<close>

theorem static_header_filter:
  "(\<forall>res out. try_static opts P req = (Some res, out) \<longrightarrow>
      serve handler opts hdefaults P req con = (Inr (Resp res), con\<lparr>debug := debug con @ out\<rparr>)
      \<and> serveDir P req (serve_opts opts req) = (Inr res, out)) \<and>
   serve_headers (serve_opts opts req) =
     (if method req = ''GET'' \<and> search (url req) = [] \<and> hash (url req) = [] \<and>
         username (url req) = [] \<and> password (url req) = [] \<and>
         (suffix ''.htm'' (pathname (url req)) \<or> suffix ''.html'' (pathname (url req)))
      then filter (\<lambda>e. \<not> prefix ''content-security-policy'' e) (configured_headers opts)
      else configured_headers opts)"
proof (intro conjI allI impI)
  fix res out
  assume hit: "try_static opts P req = (Some res, out)"
  then show "serve handler opts hdefaults P req con =
      (Inr (Resp res), con\<lparr>debug := debug con @ out\<rparr>)"
    by (rule serve_hit)
  from hit show "serveDir P req (serve_opts opts req) = (Inr res, out)"
    by (rule try_static_Some)
next
  show "serve_headers (serve_opts opts req) =
     (if method req = ''GET'' \<and> search (url req) = [] \<and> hash (url req) = [] \<and>
         username (url req) = [] \<and> password (url req) = [] \<and>
         (suffix ''.htm'' (pathname (url req)) \<or> suffix ''.html'' (pathname (url req)))
      then filter (\<lambda>e. \<not> prefix ''content-security-policy'' e) (configured_headers opts)
      else configured_headers opts)"
    using serve_headers_eq[of opts req] safe_htm_iff[of req] by simp
qed

text \<open>C9 at a page request and at the same page with a query.\<close>

theorem static_header_filter_witness:
  "try_static csp_opts full_disk page_request =
     (Some static_response, [''[2024-01-02 03:04:05] [GET] /docs/index.html 200'']) \<and>
   serve None csp_opts html_template full_disk page_request quiet =
     (Inr (Resp static_response),
      \<lparr>debug = [''[2024-01-02 03:04:05] [GET] /docs/index.html 200''], warn = []\<rparr>) \<and>
   serveDir full_disk page_request (serve_opts csp_opts page_request) =
     (Inr static_response, [''[2024-01-02 03:04:05] [GET] /docs/index.html 200'']) \<and>
   serve_headers (serve_opts csp_opts page_request) =
     [''Content-Security-Policy: default-src *'',
      ''x-frame-options: DENY''] \<and>
   serve_headers (serve_opts csp_opts query_request) =
     [''content-security-policy: default-src *'',
      ''Content-Security-Policy: default-src *'',
      ''x-frame-options: DENY'']"
proof -
  let ?line = "''[2024-01-02 03:04:05] [GET] /docs/index.html 200''"
  have hit: "try_static csp_opts full_disk page_request = (Some static_response, [?line])"
    by (simp only: full_disk_hit page_log_line)
  have q: "quiet\<lparr>debug := debug quiet @ [?line]\<rparr> = \<lparr>debug = [?line], warn = []\<rparr>"
    by (simp add: quiet_def)
  have page: "method page_request = ''GET'' \<and> search (url page_request) = []
      \<and> hash (url page_request) = [] \<and> username (url page_request) = []
      \<and> password (url page_request) = [] \<and> suffix ''.html'' (pathname (url page_request))"
    by (simp add: page_request_def plain_url_def endsWith_suffix[symmetric] endsWith_def)
  have query: "search (url query_request) \<noteq> []"
    by (simp add: query_request_def plain_url_def)
  note t1 = static_header_filter[of csp_opts full_disk page_request None html_template quiet]
  note t2 = static_header_filter[of csp_opts full_disk query_request None html_template quiet]
  from t1 hit have "serve None csp_opts html_template full_disk page_request quiet =
     (Inr (Resp static_response), quiet\<lparr>debug := debug quiet @ [?line]\<rparr>) \<and>
     serveDir full_disk page_request (serve_opts csp_opts page_request) =
       (Inr static_response, [?line])"
    by blast
  with q have "serve None csp_opts html_template full_disk page_request quiet =
     (Inr (Resp static_response), \<lparr>debug = [?line], warn = []\<rparr>) \<and>
     serveDir full_disk page_request (serve_opts csp_opts page_request) =
       (Inr static_response, [?line])"
    by simp
  moreover from t1 page have "serve_headers (serve_opts csp_opts page_request) =
     [''Content-Security-Policy: default-src *'',
      ''x-frame-options: DENY'']"
    by (simp add: csp_configured)
  moreover from t2 query have "serve_headers (serve_opts csp_opts query_request) =
     [''content-security-policy: default-src *'',
      ''Content-Security-Policy: default-src *'',
      ''x-frame-options: DENY'']"
    by (simp add: csp_configured)
  ultimately show ?thesis using hit by blast
qed

text \<open>
  Claim C10. The filter of the safe-HTML exemption compares the literal, lower-case text
  \<open>content-security-policy\<close> with the start of each configured string. An entry that
  spells the name in another casing, or that starts with whitespace, does not have that
  prefix; and for a request that meets the safe-HTML conditions every configured entry
  without that prefix is passed on to \<open>serveDir\<close>, as often as it was configured.
\<close>

theorem csp_filter_case_sensitive:
  "((byteLowerCase (take 23 e) = ''content-security-policy''
       \<and> take 23 e \<noteq> ''content-security-policy''
     \<or> (\<exists>c r. e = c # r \<and> http_whitespace c)) \<longrightarrow>
    \<not> prefix ''content-security-policy'' e) \<and>
   (safe_htm req \<and> e \<in> set (configured_headers opts)
      \<and> \<not> prefix ''content-security-policy'' e \<longrightarrow>
    e \<in> set (serve_headers (serve_opts opts req))
      \<and> filter (\<lambda>x. x = e) (serve_headers (serve_opts opts req)) =
          filter (\<lambda>x. x = e) (configured_headers opts))"
proof (intro conjI impI)
  assume a: "byteLowerCase (take 23 e) = ''content-security-policy''
       \<and> take 23 e \<noteq> ''content-security-policy''
     \<or> (\<exists>c r. e = c # r \<and> http_whitespace c)"
  show "\<not> prefix ''content-security-policy'' e"
  proof
    assume "prefix ''content-security-policy'' e"
    then obtain r where e: "e = ''content-security-policy'' @ r" by (auto simp: prefix_def)
    then have "take 23 e = ''content-security-policy''" by simp
    moreover from e have "\<not> (\<exists>c r. e = c # r \<and> http_whitespace c)"
      by (simp add: http_whitespace_def)
    ultimately show False using a by blast
  qed
next
  assume a: "safe_htm req \<and> e \<in> set (configured_headers opts)
      \<and> \<not> prefix ''content-security-policy'' e"
  then show "e \<in> set (serve_headers (serve_opts opts req))"
    by (simp add: serve_headers_eq)
  from a have "filter (\<lambda>x. x = e)
      (filter (\<lambda>e. \<not> prefix ''content-security-policy'' e) (configured_headers opts)) =
      filter (\<lambda>x. x = e) (configured_headers opts)"
    by (auto intro: filter_cong)
  with a show "filter (\<lambda>x. x = e) (serve_headers (serve_opts opts req)) =
          filter (\<lambda>x. x = e) (configured_headers opts)"
    by (simp add: serve_headers_eq)
qed

text \<open>C10 at a capitalised entry and at an entry with a leading blank.\<close>

theorem csp_filter_case_sensitive_witness:
  "safe_htm page_request \<and>
   ''Content-Security-Policy: default-src *'' \<in> set (serve_headers (serve_opts csp_opts page_request)) \<and>
   '' content-security-policy: default-src *'' \<in> set (serve_headers (serve_opts blank_opts page_request))"
proof -
  have s: "safe_htm page_request" by (rule safe_examples(1))
  have c1: "byteLowerCase (take 23 ''Content-Security-Policy: default-src *'') = ''content-security-policy''
       \<and> take 23 ''Content-Security-Policy: default-src *'' \<noteq> ''content-security-policy''"
    by (simp add: byteLowerCase_def lower_char_def char_of_eq_iff)
  have c2: "\<exists>c r. '' content-security-policy: default-src *'' = c # r \<and> http_whitespace c"
    by (simp add: http_whitespace_def)
  have m1: "''Content-Security-Policy: default-src *'' \<in> set (configured_headers csp_opts)"
    and m2: "'' content-security-policy: default-src *'' \<in> set (configured_headers blank_opts)"
    by (simp_all add: csp_configured)
  from csp_filter_case_sensitive[of "''Content-Security-Policy: default-src *''" page_request csp_opts]
    s c1 m1
  have "''Content-Security-Policy: default-src *'' \<in> set (serve_headers (serve_opts csp_opts page_request))"
    by blast
  moreover
  from csp_filter_case_sensitive[of "'' content-security-policy: default-src *''" page_request blank_opts]
    s c2 m2
  have "'' content-security-policy: default-src *'' \<in> set (serve_headers (serve_opts blank_opts page_request))"
    by blast
  ultimately show ?thesis using s by blast
qed

section \<open>The dynamic path at concrete handlers\<close>




section \<open>What the access log records\<close>

text \<open>
  Claim C5, as the code has it. When no static resource answers and the handler returns a
  response, the callback settles to exactly that response, status, headers and body
  untouched, and adds exactly one line to the access log. The line carries the status
  200, the default of \<open>log\<close>, whatever status the response declares.
\<close>

theorem handler_response_verbatim:
  assumes "try_static opts P req = (None, out)"
    and "f req (Headers_copy hdefaults) = (Returns (Plain (Resp r)), hs')"
  shows "serve (Some f) opts hdefaults P req con =
     (Inr (Resp r), con\<lparr>debug := debug con @ out @ [log_line (toISOString P) req 200]\<rparr>)"
  using assms by (simp add: serve_miss dynamic_returns_truthy)

text \<open>C5 as amended, at a handler that answers with a redirect.\<close>

theorem handler_response_verbatim_witness:
  "try_static no_opts empty_disk details_request = (None, []) \<and>
   redirect_handler details_request (Headers_copy html_template) =
     (Returns (Plain (Resp redirect_response)), html_template) \<and>
   serve (Some redirect_handler) no_opts html_template empty_disk details_request quiet =
     (Inr (Resp redirect_response),
      \<lparr>debug = [''[2024-01-02 03:04:05] [GET] /details/7 200''], warn = []\<rparr>)"
proof -
  have miss: "try_static no_opts empty_disk details_request = (None, [])"
    by (rule empty_disk_miss)
  have ret: "redirect_handler details_request (Headers_copy html_template) =
      (Returns (Plain (Resp redirect_response)), html_template)"
    by (simp add: redirect_handler_def copy_html_template)
  have q: "quiet\<lparr>debug := debug quiet @ [] @ [log_line (toISOString empty_disk) details_request 200]\<rparr>
      = \<lparr>debug = [''[2024-01-02 03:04:05] [GET] /details/7 200''], warn = []\<rparr>"
    by (simp add: quiet_def example_log_line)
  from handler_response_verbatim[where opts = no_opts and P = empty_disk
      and req = details_request and f = redirect_handler and hdefaults = html_template
      and r = redirect_response and hs' = html_template and con = quiet and out = "[]",
      OF miss ret] q miss ret
  show ?thesis by simp
qed

text \<open>
  Claim C5 as stated fails: the handler's response declares status 302, and the one line
  in the access log says 200.
\<close>

theorem log_status_counterexample:
  "try_static no_opts empty_disk details_request = (None, []) \<and>
   redirect_handler details_request (Headers_copy html_template) =
     (Returns (Plain (Resp redirect_response)), html_template) \<and>
   status redirect_response = 302 \<and>
   debug (snd (serve (Some redirect_handler) no_opts html_template empty_disk details_request
     quiet)) = [''[2024-01-02 03:04:05] [GET] /details/7 200''] \<and>
   debug (snd (serve (Some redirect_handler) no_opts html_template empty_disk details_request
     quiet)) \<noteq> debug quiet @ [log_line (toISOString empty_disk) details_request
        (status redirect_response)]"
proof -
  have miss: "try_static no_opts empty_disk details_request = (None, [])"
    by (rule empty_disk_miss)
  have ret: "redirect_handler details_request (Headers_copy html_template) =
      (Returns (Plain (Resp redirect_response)), html_template)"
    by (simp add: redirect_handler_def copy_html_template)
  have st: "status redirect_response = 302" by (simp add: redirect_response_def)
  have "serve (Some redirect_handler) no_opts html_template empty_disk details_request quiet =
      (Inr (Resp redirect_response),
       quiet\<lparr>debug := debug quiet @ [] @ [log_line (toISOString empty_disk) details_request 200]\<rparr>)"
    using ret by (simp add: serve_miss[OF miss] dynamic_returns_truthy)
  then have d: "debug (snd (serve (Some redirect_handler) no_opts html_template empty_disk
      details_request quiet)) = [''[2024-01-02 03:04:05] [GET] /details/7 200'']"
    by (simp add: quiet_def example_log_line)
  have "debug quiet @ [log_line (toISOString empty_disk) details_request (status redirect_response)]
      = [''[2024-01-02 03:04:05] [GET] /details/7 302'']"
    by (simp add: quiet_def st example_log_line)
  with d miss ret st show ?thesis by simp
qed

section \<open>Where the code departs from its documentation\<close>

text \<open>
  Claim C1 at a handler that returns a promise. However the promise settles later, to a
  response or to a rejection, the callback has printed its one access-log line when the
  handler returned, and the line says 200: it is not emitted after the final status is
  determined, and a pending result that rejects gets no line with status 500.
\<close>

theorem log_precedes_settlement:
  "serve (Some (pending_handler s)) no_opts html_template empty_disk details_request quiet =
     (s, \<lparr>debug = [''[2024-01-02 03:04:05] [GET] /details/7 200''], warn = []\<rparr>)"
proof -
  have miss: "try_static no_opts empty_disk details_request = (None, [])"
    by (rule empty_disk_miss)
  have ret: "pending_handler s details_request (Headers_copy html_template) =
      (Returns (Promise s), Headers_copy html_template)"
    by (simp add: pending_handler_def)
  have "serve (Some (pending_handler s)) no_opts html_template empty_disk details_request quiet =
      (settle (Promise s),
       quiet\<lparr>debug := debug quiet @ [] @ [log_line (toISOString empty_disk) details_request 200]\<rparr>)"
    using ret by (simp add: serve_miss[OF miss] dynamic_returns_truthy)
  then show ?thesis by (simp add: quiet_def example_log_line)
qed

text \<open>
  Claim C2 at a handler whose promise rejects. The callback returns the promise without
  awaiting it inside \<open>try\<close>: the access log already says 200, nothing is written to
  \<open>console.warn\<close>, and the callback's own promise rejects with the handler's failure
  instead of settling to the 500 page.
\<close>

theorem pending_rejection_escapes:
  "try_static no_opts empty_disk details_request = (None, []) \<and>
   rejecting_handler details_request (Headers_copy html_template) =
     (Returns (Promise (Inl (Thrown ''boom''))), html_template) \<and>
   serve (Some rejecting_handler) no_opts html_template empty_disk details_request quiet =
     (Inl (Thrown ''boom''),
      \<lparr>debug = [''[2024-01-02 03:04:05] [GET] /details/7 200''], warn = []\<rparr>)"
proof -
  have miss: "try_static no_opts empty_disk details_request = (None, [])"
    by (rule empty_disk_miss)
  have ret: "rejecting_handler details_request (Headers_copy html_template) =
      (Returns (Promise (Inl (Thrown ''boom''))), html_template)"
    by (simp add: rejecting_handler_def copy_html_template)
  have "serve (Some rejecting_handler) no_opts html_template empty_disk details_request quiet =
      (settle (Promise (Inl (Thrown ''boom''))),
       quiet\<lparr>debug := debug quiet @ [] @ [log_line (toISOString empty_disk) details_request 200]\<rparr>)"
    using ret by (simp add: serve_miss[OF miss] dynamic_returns_truthy)
  then have "serve (Some rejecting_handler) no_opts html_template empty_disk details_request
      quiet = (Inl (Thrown ''boom''),
      \<lparr>debug = [''[2024-01-02 03:04:05] [GET] /details/7 200''], warn = []\<rparr>)"
    by (simp add: quiet_def example_log_line)
  with miss ret show ?thesis by simp
qed

text \<open>
  With the default options both keys are absent, and the options given to \<open>serveDir\<close>
  resolve both to true.
\<close>

lemma default_serve_opts:
  "enableCors (serve_opts no_opts req) \<and> showDirListing (serve_opts no_opts req)"
  by (simp add: serve_opts_def no_opts_def)

text \<open>
  Claim C3 at the default options. The key \<open>cors\<close> is absent, which resolves to true; the
  header template built at startup tests \<open>opts.cors\<close> for truth instead, and holds the
  content type alone.
\<close>

theorem default_template_without_cors:
  "cors no_opts = None \<and>
   headers_defaults no_opts = Inr [(''content-type'', ''text/html'')] \<and>
   httpd handler no_opts [] =
     Inr \<lparr>listen_port = Some 5000,
          callback = serve handler no_opts [(''content-type'', ''text/html'')]\<rparr> \<and>
   Headers_get [(''content-type'', ''text/html'')] ''access-control-allow-origin'' = None \<and>
   Headers_get [(''content-type'', ''text/html'')] ''access-control-allow-headers'' = None"
proof -
  have t: "headers_defaults no_opts = Inr [(''content-type'', ''text/html'')]"
    by (simp add: headers_defaults_def no_opts_def Headers_append_def content_type_valid
        truthy_def)
  have p: "resolve_port no_opts [] = Some 5000"
    by (simp add: resolve_port_def no_opts_def Number_def slice_from_def is_digit_def
        digit_val_def)
  have g: "Headers_get [(''content-type'', ''text/html'')] ''access-control-allow-origin'' = None"
    "Headers_get [(''content-type'', ''text/html'')] ''access-control-allow-headers'' = None"
    by (simp_all add: Headers_get_def same_name_def byteLowerCase_def)
  have "cors no_opts = None" by (simp add: no_opts_def)
  with t p g show ?thesis by (simp add: httpd_def)
qed

text \<open>
  Claim C4 at the default options and a request for the root. The key \<open>ls\<close> is absent,
  which resolves to true; the probe tests \<open>opts.ls\<close> for truth instead and looks for
  \<open>index.html\<close>, as it does when listings are switched off, and not for the directory.
\<close>

theorem default_root_candidate:
  "ls no_opts = None \<and>
   slice_from (pathname (url root_request)) 1 = [] \<and>
   static_candidate no_opts (url root_request) = ''index.html'' \<and>
   static_candidate (no_opts\<lparr>ls := Some True\<rparr>) (url root_request) = ''.'' \<and>
   static_candidate (no_opts\<lparr>ls := Some False\<rparr>) (url root_request) = ''index.html''"
  by (simp add: static_candidate_def no_opts_def root_request_def plain_url_def slice_from_def
      truthy_def)

end
